theory Spec2Isabelle
  imports Complex_Main
begin

section \<open>Python values\<close>

text \<open>
  The values that travel as JSON (the feed's snapshot, the geometry service's answer) and
  Python's \<^verbatim>\<open>None\<close>. A dict is the list of its items in insertion order, which is
  the order \<^verbatim>\<open>dict.values()\<close> and \<^verbatim>\<open>dict.items()\<close> iterate in. A float is
  idealised as a real: no claim below depends on rounding.
\<close>

datatype pyval =
    PyNone
  | PyBool bool
  | PyInt int
  | PyFloat real
  | PyStr string
  | PyList "pyval list"
  | PyDict "(string \<times> pyval) list"

fun dict_keys :: "pyval \<Rightarrow> string list" where
  "dict_keys (PyDict kvs) = map fst kvs"
| "dict_keys _ = []"

fun dict_get :: "pyval \<Rightarrow> string \<Rightarrow> pyval option" where
  "dict_get (PyDict kvs) k = map_of kvs k"
| "dict_get _ k = None"

fun list_items :: "pyval \<Rightarrow> pyval list" where
  "list_items (PyList xs) = xs"
| "list_items _ = []"

text \<open>\<^verbatim>\<open>str(n)\<close> for an int: the decimal digits, with a minus sign.\<close>

definition digit_char :: "nat \<Rightarrow> char" where
  "digit_char d = ''0123456789'' ! d"

fun str_nat :: "nat \<Rightarrow> string" where
  "str_nat n = (if n < 10 then [digit_char n] else str_nat (n div 10) @ [digit_char (n mod 10)])"

definition str_int :: "int \<Rightarrow> string" where
  "str_int i = (if i < 0 then CHR ''-'' # str_nat (nat (- i)) else str_nat (nat i))"

section \<open>server.py: the synthetic feed\<close>

definition TX_LAT :: real where "TX_LAT = -34.9810"
definition TX_LON :: real where "TX_LON = 138.7081"
definition RADIUS_DEG :: real where "RADIUS_DEG = 0.05"
definition ANGULAR_SPEED :: real where "ANGULAR_SPEED = 0.01"
definition ALT_BARO_FT :: int where "ALT_BARO_FT = 30000"
definition ICAO_HEX :: string where "ICAO_HEX = ''AEF123''"

text \<open>
  \<^verbatim>\<open>x % y\<close> on floats for a positive \<open>y\<close>, and \<^verbatim>\<open>round(x, n)\<close> (ties go to the even
  neighbour), both over the reals.
\<close>

definition py_fmod :: "real \<Rightarrow> real \<Rightarrow> real" where
  "py_fmod x y = x - y * of_int \<lfloor>x / y\<rfloor>"

definition round_half_even :: "real \<Rightarrow> int" where
  "round_half_even x =
     (let f = \<lfloor>x\<rfloor>; d = x - of_int f
      in if d < 1 / 2 then f else if 1 / 2 < d then f + 1 else if even f then f else f + 1)"

definition py_round :: "real \<Rightarrow> nat \<Rightarrow> real" where
  "py_round x n = of_int (round_half_even (x * 10 ^ n)) / 10 ^ n"

text \<open>
  The handler of \<^verbatim>\<open>GET /data/aircraft.json\<close>. Its one input is the clock reading
  \<^verbatim>\<open>time.time()\<close>; the result is the value handed to \<^verbatim>\<open>jsonify\<close>, the body of the
  response.
\<close>

definition serve_synthetic_adsb :: "real \<Rightarrow> pyval" where
  "serve_synthetic_adsb now =
     (let theta = py_fmod (now * ANGULAR_SPEED) (2 * pi);
          lat = TX_LAT + RADIUS_DEG * cos theta;
          lon = TX_LON + RADIUS_DEG * sin theta;
          aircraft = PyDict
            [(''hex'', PyStr ICAO_HEX),
             (''lat'', PyFloat (py_round lat 6)),
             (''lon'', PyFloat (py_round lon 6)),
             (''alt_baro'', PyInt ALT_BARO_FT),
             (''alt_geom'', PyInt (ALT_BARO_FT + 100)),
             (''flight'', PyStr ''SYN001  ''),
             (''seen_pos'', PyInt 0)]
      in PyDict [(''now'', PyFloat now), (''aircraft'', PyList [aircraft])])"

text \<open>What is left of a response once the time-dependent fields are taken out.\<close>

fun drop_keys :: "string list \<Rightarrow> pyval \<Rightarrow> pyval" where
  "drop_keys ks (PyDict kvs) = PyDict (filter (\<lambda>kv. fst kv \<notin> set ks) kvs)"
| "drop_keys ks v = v"

definition constant_part :: "pyval \<Rightarrow> pyval list" where
  "constant_part resp =
     (case dict_get resp ''aircraft'' of
        None \<Rightarrow> []
      | Some acs \<Rightarrow> map (drop_keys [''lat'', ''lon'']) (list_items acs))"

section \<open>bridge.py: configuration\<close>

text \<open>
  A position is the \<^verbatim>\<open>lat\<close>, \<^verbatim>\<open>lon\<close> and \<^verbatim>\<open>alt\<close> of a dict of the configuration;
  a radar has an \<^verbatim>\<open>id\<close> as well.
\<close>

record position =
  lat :: real
  lon :: real
  alt :: int

record radar = position +
  rid :: string

definition ADSB_JSON_HOST :: string where "ADSB_JSON_HOST = ''http://192.168.0.172:5001''"
definition ADSB_JSON_PATH :: string where "ADSB_JSON_PATH = ''/data/aircraft.json''"
definition ADSB2DD_URL :: string where "ADSB2DD_URL = ''http://192.168.0.219:49155/api/dd''"
definition POLL_RATE_HZ :: real where "POLL_RATE_HZ = 1.0"

definition RADARS :: "radar list" where
  "RADARS =
     [\<lparr>lat = -34.9192, lon = 138.6027, alt = 110, rid = ''rx1''\<rparr>,
      \<lparr>lat = -34.9315, lon = 138.6967, alt = 408, rid = ''rx2''\<rparr>,
      \<lparr>lat = -34.8414, lon = 138.7237, alt = 230, rid = ''rx3''\<rparr>]"

definition TX :: position where
  "TX = \<lparr>lat = -34.9810, lon = 138.7081, alt = 750\<rparr>"

definition FC_MHZ :: real where "FC_MHZ = 204.64"

section \<open>bridge.py: the geometry request\<close>

text \<open>
  \<^verbatim>\<open>build_adsb2dd_url\<close> formats floats with \<^verbatim>\<open>str\<close>. How Python prints a float is
  not part of the repository, so it is the parameter \<open>repr\<close>. The dict \<^verbatim>\<open>params\<close> is
  its items in insertion order; \<^verbatim>\<open>"&".join\<close> is \<open>join_with\<close>.
\<close>

fun join_with :: "string \<Rightarrow> string list \<Rightarrow> string" where
  "join_with sep [] = []"
| "join_with sep [x] = x"
| "join_with sep (x # y # ys) = x @ sep @ join_with sep (y # ys)"

definition position_str :: "(real \<Rightarrow> string) \<Rightarrow> 'a position_scheme \<Rightarrow> string" where
  "position_str repr p = repr (lat p) @ '','' @ repr (lon p) @ '','' @ str_int (alt p)"

definition build_adsb2dd_url :: "(real \<Rightarrow> string) \<Rightarrow> radar \<Rightarrow> string" where
  "build_adsb2dd_url repr r =
     (let params =
            [(''rx'', position_str repr r),
             (''tx'', position_str repr TX),
             (''fc'', repr FC_MHZ),
             (''server'', ADSB_JSON_HOST)];
          qs = join_with ''&'' (map (\<lambda>(k, v). k @ ''='' @ v) params)
      in ADSB2DD_URL @ ''?'' @ qs)"

section \<open>bridge.py: exceptions, calls to the outside, and the trace\<close>

text \<open>
  An exception is its class and its message (\<^verbatim>\<open>str(e)\<close>). The classes are the ones the
  code tells apart or can meet: the three of \<^verbatim>\<open>requests.exceptions\<close> that
  \<^verbatim>\<open>fetch_adsb\<close> names, the ones subscripting and \<^verbatim>\<open>.values()\<close> raise, and one
  for any other subclass of \<^verbatim>\<open>Exception\<close>. In \<^verbatim>\<open>requests\<close>, \<^verbatim>\<open>ConnectTimeout\<close>
  inherits from both \<^verbatim>\<open>ConnectionError\<close> and \<^verbatim>\<open>Timeout\<close>. \<^verbatim>\<open>KeyboardInterrupt\<close> is
  not an \<^verbatim>\<open>Exception\<close> and no call raises it: it is the asynchronous stop request
  that the outer handler of \<^verbatim>\<open>main\<close> serves, and it is outside this model.
\<close>

datatype exn_class =
    RequestsTimeout
  | RequestsConnectTimeout
  | RequestsConnectionError
  | RequestsHTTPError
  | JSONDecodeError
  | KeyError
  | TypeError
  | AttributeError
  | ValueError
  | OSError
  | OtherException

datatype py_exn = Exn exn_class string

fun exn_class_of :: "py_exn \<Rightarrow> exn_class" where
  "exn_class_of (Exn c m) = c"

fun exn_str :: "py_exn \<Rightarrow> string" where
  "exn_str (Exn c m) = m"

definition is_Timeout :: "py_exn \<Rightarrow> bool" where
  "is_Timeout e = (exn_class_of e = RequestsTimeout \<or> exn_class_of e = RequestsConnectTimeout)"

definition is_ConnectionError :: "py_exn \<Rightarrow> bool" where
  "is_ConnectionError e =
     (exn_class_of e = RequestsConnectionError \<or> exn_class_of e = RequestsConnectTimeout)"

datatype level = INFO | WARNING | ERROR

text \<open>
  Every call that leaves the code is an event of the trace: the socket calls of the
  probe, \<^verbatim>\<open>requests.get(url, timeout=t)\<close>, \<^verbatim>\<open>print\<close>, \<^verbatim>\<open>store.add_measurement\<close>,
  \<^verbatim>\<open>time.time()\<close>, \<^verbatim>\<open>time.sleep(d)\<close> and the logger.
\<close>

datatype event =
    SocketNew
  | SetTimeout real
  | ConnectEx string int
  | SocketClose
  | HttpGet string real
  | Print string
  | AddMeasurement string pyval pyval
  | TimeRead
  | Sleep real
  | Log level string

text \<open>
  A response of \<^verbatim>\<open>requests\<close>: its status code, and the value \<^verbatim>\<open>resp.json()\<close> parses
  the body to (\<open>None\<close> when the body is not JSON).
\<close>

record response =
  status_code :: int
  json_body :: "pyval option"

text \<open>
  The world outside the repository: what each outside call answers, given the events so
  far. \<open>None\<close> (or \<open>Inr\<close>) is a normal return, \<open>Some e\<close> (or \<open>Inl e\<close>) the exception
  raised. \<^verbatim>\<open>RadarStore\<close> is not among the source files, so \<^verbatim>\<open>add_measurement\<close> is
  such a call too. \<open>float_repr\<close> is how Python prints a float.
\<close>

record env =
  socket_socket :: "event list \<Rightarrow> py_exn option"
  sock_settimeout :: "event list \<Rightarrow> real \<Rightarrow> py_exn option"
  sock_connect_ex :: "event list \<Rightarrow> string \<Rightarrow> int \<Rightarrow> py_exn + int"
  sock_close :: "event list \<Rightarrow> py_exn option"
  requests_get :: "event list \<Rightarrow> string \<Rightarrow> real \<Rightarrow> py_exn + response"
  store_add_measurement :: "event list \<Rightarrow> string \<Rightarrow> pyval \<Rightarrow> pyval \<Rightarrow> py_exn option"
  time_time :: "event list \<Rightarrow> real"
  float_repr :: "real \<Rightarrow> string"

text \<open>
  A piece of code takes the events so far and gives its result, a value or the exception
  that leaves it, with the events it adds.
\<close>

type_synonym 'a run = "event list \<Rightarrow> (py_exn + 'a) \<times> event list"

definition run_return :: "'a \<Rightarrow> 'a run" where
  "run_return x h = (Inr x, [])"

definition run_raise :: "py_exn \<Rightarrow> 'a run" where
  "run_raise e h = (Inl e, [])"

definition run_bind :: "'a run \<Rightarrow> ('a \<Rightarrow> 'b run) \<Rightarrow> 'b run" where
  "run_bind m f h =
     (case m h of
        (Inl e, evs) \<Rightarrow> (Inl e, evs)
      | (Inr x, evs) \<Rightarrow> (case f x (h @ evs) of (r, evs') \<Rightarrow> (r, evs @ evs')))"

text \<open>\<^verbatim>\<open>try: m except Exception as e: handler(e)\<close>.\<close>

definition try_except :: "'a run \<Rightarrow> (py_exn \<Rightarrow> 'a run) \<Rightarrow> 'a run" where
  "try_except m handler h =
     (case m h of
        (Inl e, evs) \<Rightarrow> (case handler e (h @ evs) of (r, evs') \<Rightarrow> (r, evs @ evs'))
      | (Inr x, evs) \<Rightarrow> (Inr x, evs))"

definition extern :: "event \<Rightarrow> (event list \<Rightarrow> py_exn + 'a) \<Rightarrow> 'a run" where
  "extern ev answer h = (answer h, [ev])"

definition returns_or_raises :: "py_exn option \<Rightarrow> py_exn + unit" where
  "returns_or_raises r = (case r of None \<Rightarrow> Inr () | Some e \<Rightarrow> Inl e)"

definition lift :: "py_exn + 'a \<Rightarrow> 'a run" where
  "lift r h = (r, [])"

definition logger :: "level \<Rightarrow> string \<Rightarrow> unit run" where
  "logger l msg h = (Inr (), [Log l msg])"

definition py_print :: "string \<Rightarrow> unit run" where
  "py_print s h = (Inr (), [Print s])"

definition py_time :: "env \<Rightarrow> real run" where
  "py_time w h = (Inr (time_time w h), [TimeRead])"

text \<open>\<^verbatim>\<open>time.sleep(d)\<close> raises \<^verbatim>\<open>ValueError\<close> on a negative length.\<close>

definition py_sleep :: "real \<Rightarrow> unit run" where
  "py_sleep d h =
     (if d < 0 then (Inl (Exn ValueError ''sleep length must be non-negative''), [])
      else (Inr (), [Sleep d]))"

text \<open>
  \<^verbatim>\<open>resp.raise_for_status()\<close> of \<^verbatim>\<open>requests\<close> raises \<^verbatim>\<open>HTTPError\<close> for a status from
  400 to 599 and returns otherwise; \<^verbatim>\<open>resp.json()\<close> raises when the body does not
  parse. The messages of library exceptions are shortened.
\<close>

definition raise_for_status :: "response \<Rightarrow> unit run" where
  "raise_for_status resp =
     (if 400 \<le> status_code resp \<and> status_code resp < 600
      then run_raise (Exn RequestsHTTPError (str_int (status_code resp) @ '' Error''))
      else run_return ())"

definition resp_json :: "response \<Rightarrow> pyval run" where
  "resp_json resp =
     (case json_body resp of
        None \<Rightarrow> run_raise (Exn JSONDecodeError ''Expecting value'')
      | Some v \<Rightarrow> run_return v)"

text \<open>\<^verbatim>\<open>v[k]\<close> for a string key, and \<^verbatim>\<open>v.values()\<close>.\<close>

fun py_getitem :: "pyval \<Rightarrow> string \<Rightarrow> py_exn + pyval" where
  "py_getitem (PyDict kvs) k =
     (case map_of kvs k of
        None \<Rightarrow> Inl (Exn KeyError (CHR 0x27 # k @ [CHR 0x27]))
      | Some v \<Rightarrow> Inr v)"
| "py_getitem (PyList xs) k = Inl (Exn TypeError ''list indices must be integers or slices, not str'')"
| "py_getitem (PyStr s) k = Inl (Exn TypeError ''string indices must be integers'')"
| "py_getitem v k = Inl (Exn TypeError ''object is not subscriptable'')"

fun py_values :: "pyval \<Rightarrow> py_exn + pyval list" where
  "py_values (PyDict kvs) = Inr (map snd kvs)"
| "py_values v = Inl (Exn AttributeError ''object has no attribute values'')"

section \<open>bridge.py: the functions\<close>

definition check_port_open :: "env \<Rightarrow> string \<Rightarrow> int \<Rightarrow> real \<Rightarrow> bool run" where
  "check_port_open w host port timeout =
     try_except
       (run_bind (extern SocketNew (\<lambda>h. returns_or_raises (socket_socket w h))) (\<lambda>sock.
        run_bind (extern (SetTimeout timeout)
                    (\<lambda>h. returns_or_raises (sock_settimeout w h timeout))) (\<lambda>_.
        run_bind (extern (ConnectEx host port) (\<lambda>h. sock_connect_ex w h host port)) (\<lambda>result.
        run_bind (extern SocketClose (\<lambda>h. returns_or_raises (sock_close w h))) (\<lambda>_.
        run_return (result = 0))))))
       (\<lambda>e. run_bind
               (logger ERROR (''Error checking port '' @ str_int port @ '' on '' @ host @ '': ''
                             @ exn_str e))
               (\<lambda>_. run_return False))"

definition fetch_adsb :: "env \<Rightarrow> pyval run" where
  "fetch_adsb w =
     try_except
       (run_bind (check_port_open w ''localhost'' 5001 1) (\<lambda>is_open.
        if \<not> is_open
        then run_bind
               (logger ERROR ''Port 5001 is not open on localhost. Is the ADS-B server running?'')
               (\<lambda>_. run_return PyNone)
        else
          run_bind (logger INFO (''Attempting to fetch ADS-B data from '' @ ADSB_JSON_HOST
                                @ ADSB_JSON_PATH)) (\<lambda>_.
          run_bind (extern (HttpGet (ADSB_JSON_HOST @ ADSB_JSON_PATH) 5)
                      (\<lambda>h. requests_get w h (ADSB_JSON_HOST @ ADSB_JSON_PATH) 5)) (\<lambda>resp.
          run_bind (raise_for_status resp) (\<lambda>_.
          run_bind (logger INFO ''Successfully fetched ADS-B data'') (\<lambda>_.
          resp_json resp))))))
       (\<lambda>e.
          if is_Timeout e
          then run_bind
                 (logger ERROR ''Timeout while fetching ADS-B data. Server might be overloaded or not responding.'')
                 (\<lambda>_. run_return PyNone)
          else if is_ConnectionError e
          then run_bind
                 (logger ERROR ''Connection error while fetching ADS-B data. Server might not be running.'')
                 (\<lambda>_. run_return PyNone)
          else run_bind
                 (logger ERROR (''Unexpected error while fetching ADS-B data: '' @ exn_str e))
                 (\<lambda>_. run_return PyNone))"

definition query_adsb2dd_for :: "env \<Rightarrow> radar \<Rightarrow> pyval run" where
  "query_adsb2dd_for w r =
     (let url = build_adsb2dd_url (float_repr w) r in
      run_bind (py_print url) (\<lambda>_.
      run_bind (extern (HttpGet url 5) (\<lambda>h. requests_get w h url 5)) (\<lambda>resp.
      run_bind (raise_for_status resp) (\<lambda>_.
      resp_json resp))))"

text \<open>
  The body of \<^verbatim>\<open>for meas in dd.values()\<close>: the arguments of the call are evaluated
  from left to right, then the store is called.
\<close>

definition store_one :: "env \<Rightarrow> radar \<Rightarrow> pyval \<Rightarrow> unit run" where
  "store_one w r meas =
     run_bind (lift (py_getitem meas ''delay'')) (\<lambda>delay.
     run_bind (lift (py_getitem meas ''doppler'')) (\<lambda>doppler.
     extern (AddMeasurement (rid r) delay doppler)
       (\<lambda>h. returns_or_raises (store_add_measurement w h (rid r) delay doppler))))"

fun for_each :: "('a \<Rightarrow> unit run) \<Rightarrow> 'a list \<Rightarrow> unit run" where
  "for_each body [] = run_return ()"
| "for_each body (x # xs) = run_bind (body x) (\<lambda>_. for_each body xs)"

text \<open>The body of \<^verbatim>\<open>for radar in RADARS\<close>, with its own handler.\<close>

definition process_radar :: "env \<Rightarrow> radar \<Rightarrow> unit run" where
  "process_radar w r =
     try_except
       (run_bind (query_adsb2dd_for w r) (\<lambda>dd.
        run_bind (lift (py_values dd)) (\<lambda>vals.
        for_each (store_one w r) vals)))
       (\<lambda>e. logger ERROR (''Error processing radar '' @ rid r @ '': '' @ exn_str e))"

definition loop_delay :: real where
  "loop_delay = 1.0 / POLL_RATE_HZ"

text \<open>
  How the inner \<^verbatim>\<open>try\<close> of the loop is left: by \<^verbatim>\<open>continue\<close>, which skips the rest of
  the iteration, or at its end.
\<close>

datatype flow = Continue | Fallthrough

definition cycle_try :: "env \<Rightarrow> flow run" where
  "cycle_try w =
     try_except
       (run_bind (fetch_adsb w) (\<lambda>adsb_data.
        if adsb_data = PyNone
        then run_bind (logger WARNING ''Skipping this iteration due to failed ADS-B data fetch'') (\<lambda>_.
             run_bind (py_sleep loop_delay) (\<lambda>_.
             run_return Continue))
        else run_bind (for_each (process_radar w) RADARS) (\<lambda>_. run_return Fallthrough)))
       (\<lambda>e. run_bind (logger ERROR (''Error in main loop: '' @ exn_str e)) (\<lambda>_.
             run_return Fallthrough))"

text \<open>One iteration of \<^verbatim>\<open>while True\<close>.\<close>

definition cycle :: "env \<Rightarrow> unit run" where
  "cycle w =
     run_bind (py_time w) (\<lambda>t_start.
     run_bind (cycle_try w) (\<lambda>fl.
     case fl of
       Continue \<Rightarrow> run_return ()
     | Fallthrough \<Rightarrow>
         run_bind (py_time w) (\<lambda>t_end.
         let elapsed = t_end - t_start; to_sleep = loop_delay - elapsed
         in if to_sleep > 0 then py_sleep to_sleep else run_return ())))"

text \<open>
  The loop never leaves by itself, so it is run for a number of iterations: the result
  after \<open>n\<close> iterations is \<open>Inr ()\<close> when the loop is still running, and \<open>Inl e\<close> when
  the exception \<open>e\<close> has left it.
\<close>

fun main_loop :: "env \<Rightarrow> nat \<Rightarrow> unit run" where
  "main_loop w 0 = run_return ()"
| "main_loop w (Suc n) = run_bind (cycle w) (\<lambda>_. main_loop w n)"

section \<open>Reading a trace\<close>

text \<open>
  What a trace shows: the geometry requests (the \<^verbatim>\<open>requests.get\<close> calls whose URL
  starts with the geometry base URL), every request with its timeout, the measurements
  handed to the store for one radar, and the lengths slept.
\<close>

fun query_of :: "event \<Rightarrow> string list" where
  "query_of (HttpGet url t) = (if take (length ADSB2DD_URL) url = ADSB2DD_URL then [url] else [])"
| "query_of _ = []"

definition geometry_queries :: "event list \<Rightarrow> string list" where
  "geometry_queries evs = concat (map query_of evs)"

fun get_of :: "event \<Rightarrow> (string \<times> real) list" where
  "get_of (HttpGet url t) = [(url, t)]"
| "get_of _ = []"

definition http_gets :: "event list \<Rightarrow> (string \<times> real) list" where
  "http_gets evs = concat (map get_of evs)"

fun added_to :: "string \<Rightarrow> event \<Rightarrow> (pyval \<times> pyval) list" where
  "added_to i (AddMeasurement j d p) = (if j = i then [(d, p)] else [])"
| "added_to i _ = []"

definition stored_for :: "string \<Rightarrow> event list \<Rightarrow> (pyval \<times> pyval) list" where
  "stored_for i evs = concat (map (added_to i) evs)"

fun is_add :: "event \<Rightarrow> bool" where
  "is_add (AddMeasurement j d p) = True"
| "is_add _ = False"

fun sleep_of :: "event \<Rightarrow> real list" where
  "sleep_of (Sleep d) = [d]"
| "sleep_of _ = []"

definition sleeps :: "event list \<Rightarrow> real list" where
  "sleeps evs = concat (map sleep_of evs)"


text \<open>
  The events so far when the loop over the radars \<open>rs\<close>, started after \<open>h\<close>, reaches
  its \<open>i\<close>-th radar: \<open>h\<close> and the events of the radars before it.
\<close>

fun history_before :: "env \<Rightarrow> radar list \<Rightarrow> nat \<Rightarrow> event list \<Rightarrow> event list" where
  "history_before w [] i h = h"
| "history_before w (x # xs) 0 h = h"
| "history_before w (x # xs) (Suc i) h = history_before w xs i (h @ snd (process_radar w x h))"



text \<open>
  The failures of the feed request as \<^verbatim>\<open>fetch_adsb\<close> tells them apart, one per
  \<^verbatim>\<open>except\<close> clause, each with the start of its log line. The third clause takes
  every other exception: the \<^verbatim>\<open>HTTPError\<close> of a 4xx or 5xx status and the error of a
  body that does not parse among them.
\<close>

datatype failure_kind = FeedTimeout | FeedConnection | FeedUnexpected

definition fetch_failure :: "py_exn + response \<Rightarrow> failure_kind option" where
  "fetch_failure outcome =
     (case outcome of
        Inl e \<Rightarrow>
          Some (if is_Timeout e then FeedTimeout
                else if is_ConnectionError e then FeedConnection
                else FeedUnexpected)
      | Inr resp \<Rightarrow>
          if (400 \<le> status_code resp \<and> status_code resp < 600) \<or> json_body resp = None
          then Some FeedUnexpected
          else None)"

fun failure_message :: "failure_kind \<Rightarrow> string" where
  "failure_message FeedTimeout =
     ''Timeout while fetching ADS-B data. Server might be overloaded or not responding.''"
| "failure_message FeedConnection =
     ''Connection error while fetching ADS-B data. Server might not be running.''"
| "failure_message FeedUnexpected = ''Unexpected error while fetching ADS-B data: ''"

text \<open>
  Two properties of a piece of code, used in the proofs: it never raises, and every
  event it adds satisfies a predicate.
\<close>

definition total :: "'a run \<Rightarrow> bool" where
  "total m = (\<forall>h. \<exists>x. fst (m h) = Inr x)"

definition emits :: "(event \<Rightarrow> bool) \<Rightarrow> 'a run \<Rightarrow> bool" where
  "emits P m = (\<forall>h. list_all P (snd (m h)))"

definition quiet :: "event \<Rightarrow> bool" where
  "quiet ev = (query_of ev = [] \<and> \<not> is_add ev \<and> sleep_of ev = [])"

fun tail_event :: "string \<Rightarrow> event \<Rightarrow> bool" where
  "tail_event i (AddMeasurement j d p) = (j = i)"
| "tail_event i (Log l s) = True"
| "tail_event i _ = False"

section \<open>Concrete worlds\<close>

text \<open>
  \<open>w_up\<close>: every port is open, the feed answers 200 with a snapshot of one aircraft,
  the geometry service answers 200 with one measurement of that aircraft, the store accepts
  everything, and every outside call takes a hundredth of a second. \<open>repr_table\<close> prints
  the floats of the configuration as Python does.
\<close>

definition repr_table :: "real \<Rightarrow> string" where
  "repr_table x =
     (if x = -34.9192 then ''-34.9192'' else if x = 138.6027 then ''138.6027''
      else if x = -34.9315 then ''-34.9315'' else if x = 138.6967 then ''138.6967''
      else if x = -34.8414 then ''-34.8414'' else if x = 138.7237 then ''138.7237''
      else if x = -34.9810 then ''-34.981'' else if x = 138.7081 then ''138.7081''
      else if x = 204.64 then ''204.64'' else ''nan'')"

definition snapshot :: pyval where
  "snapshot =
     PyDict [(''now'', PyFloat 1700000000),
             (''aircraft'', PyList [PyDict [(''hex'', PyStr ''AEF123''),
                                            (''alt_baro'', PyInt 30000)]])]"

definition one_measurement :: "(string \<times> pyval) list" where
  "one_measurement =
     [(''AEF123'', PyDict [(''timestamp'', PyInt 1700000000),
                           (''delay'', PyFloat 12.3),
                           (''doppler'', PyFloat (-4.5))])]"

definition w_up :: env where
  "w_up =
     \<lparr>socket_socket = (\<lambda>h. None),
      sock_settimeout = (\<lambda>h t. None),
      sock_connect_ex = (\<lambda>h host port. Inr 0),
      sock_close = (\<lambda>h. None),
      requests_get = (\<lambda>h url t.
         if url = ADSB_JSON_HOST @ ADSB_JSON_PATH
         then Inr \<lparr>status_code = 200, json_body = Some snapshot\<rparr>
         else Inr \<lparr>status_code = 200, json_body = Some (PyDict one_measurement)\<rparr>),
      store_add_measurement = (\<lambda>h i d p. None),
      time_time = (\<lambda>h. real (length h) / 100),
      float_repr = repr_table\<rparr>"

text \<open>
  \<open>w_localhost_closed\<close>: the feed's host 192.168.0.172 is up and serves the
  snapshot, and nothing listens on port 5001 of localhost (\<^verbatim>\<open>connect_ex\<close> gives 111,
  connection refused).
\<close>

definition w_localhost_closed :: env where
  "w_localhost_closed =
     w_up\<lparr>sock_connect_ex :=
            (\<lambda>h host port. if host = ''192.168.0.172'' then Inr 0 else Inr 111)\<rparr>"

text \<open>\<open>w_rx2_down\<close>: the geometry request of radar rx2 times out.\<close>

definition w_rx2_down :: env where
  "w_rx2_down =
     w_up\<lparr>requests_get := (\<lambda>h url t.
            if url = build_adsb2dd_url repr_table (RADARS ! 1)
            then Inl (Exn RequestsTimeout ''Read timed out.'')
            else requests_get w_up h url t)\<rparr>"





text \<open>
  Worlds for the feed request: it times out, the connection is refused, the feed answers
  503, and the feed answers 300 (Multiple Choices, which \<^verbatim>\<open>requests\<close> does not follow)
  with the snapshot as its body.
\<close>

definition w_feed_answers :: "(py_exn + response) \<Rightarrow> env" where
  "w_feed_answers outcome = w_up\<lparr>requests_get := (\<lambda>h url t. outcome)\<rparr>"

definition w_feed_timeout :: env where
  "w_feed_timeout = w_feed_answers (Inl (Exn RequestsTimeout ''Read timed out.''))"

definition w_feed_refused :: env where
  "w_feed_refused = w_feed_answers (Inl (Exn RequestsConnectionError ''Connection refused''))"

definition w_feed_503 :: env where
  "w_feed_503 = w_feed_answers (Inr \<lparr>status_code = 503, json_body = None\<rparr>)"

definition w_feed_300 :: env where
  "w_feed_300 = w_feed_answers (Inr \<lparr>status_code = 300, json_body = Some snapshot\<rparr>)"

section \<open>Properties of the synthetic feed\<close>

text \<open>
  C8. Every response of the feed path is a JSON object with a top-level \<open>now\<close>, the
  epoch-seconds clock reading, and a top-level \<open>aircraft\<close>, a list; every record of
  that list has exactly the fields hex, lat, lon, alt_baro, alt_geom, flight and
  seen_pos (each once).
\<close>

theorem feed_response_shape:
  "dict_get (serve_synthetic_adsb now) ''now'' = Some (PyFloat now) \<and>
   (\<exists>acs. dict_get (serve_synthetic_adsb now) ''aircraft'' = Some (PyList acs) \<and>
      list_all (\<lambda>ac. distinct (dict_keys ac) \<and>
                      set (dict_keys ac) =
                        {''hex'', ''lat'', ''lon'', ''alt_baro'', ''alt_geom'', ''flight'',
                         ''seen_pos''}) acs \<and>
      list_all (\<lambda>ac. \<exists>kvs. ac = PyDict kvs) acs)"
  by (simp add: serve_synthetic_adsb_def Let_def)

text \<open>
  C9. At every request time the aircraft list holds exactly one aircraft, whose hex is
  "AEF123", alt_baro 30000, alt_geom alt_baro + 100, flight "SYN001  " and seen_pos 0;
  with now, lat and lon taken out, any two responses agree.
\<close>

theorem feed_constant_fields:
  "(\<exists>ac. dict_get (serve_synthetic_adsb now) ''aircraft'' = Some (PyList [ac]) \<and>
      dict_get ac ''hex'' = Some (PyStr ''AEF123'') \<and>
      dict_get ac ''alt_baro'' = Some (PyInt 30000) \<and>
      dict_get ac ''alt_geom'' = Some (PyInt (ALT_BARO_FT + 100)) \<and>
      dict_get ac ''alt_geom'' = Some (PyInt 30100) \<and>
      dict_get ac ''flight'' = Some (PyStr ''SYN001  '') \<and>
      dict_get ac ''seen_pos'' = Some (PyInt 0)) \<and>
   dict_keys (serve_synthetic_adsb now) = [''now'', ''aircraft''] \<and>
   constant_part (serve_synthetic_adsb now) = constant_part (serve_synthetic_adsb now')"
  by (simp add: serve_synthetic_adsb_def constant_part_def Let_def ICAO_HEX_def ALT_BARO_FT_def)

section \<open>Properties of the geometry request\<close>

text \<open>
  C6. For every radar the URL is the geometry base URL, then \<open>?rx=\<close> and the radar's
  lat,lon,alt, then \<open>&tx=\<close> and the transmitter's lat,lon,alt, then \<open>&fc=\<close> and the
  carrier frequency, then \<open>&server=\<close> and the feed's base URL. What follows the
  radar's own position is the same string for every radar.
\<close>

theorem geometry_url_encoding:
  "build_adsb2dd_url repr r =
     ADSB2DD_URL @ ''?rx='' @ repr (lat r) @ '','' @ repr (lon r) @ '','' @ str_int (alt r)
       @ ''&tx='' @ repr (lat TX) @ '','' @ repr (lon TX) @ '','' @ str_int (alt TX)
       @ ''&fc='' @ repr FC_MHZ
       @ ''&server='' @ ADSB_JSON_HOST \<and>
   (\<exists>shared. \<forall>r'. build_adsb2dd_url repr r' =
      ADSB2DD_URL @ ''?rx='' @ position_str repr r' @ shared)"
  by (simp add: build_adsb2dd_url_def position_str_def Let_def)

section \<open>Code that never raises\<close>

text \<open>
  Code never raises when each of its parts never raises, and a \<^verbatim>\<open>try\<close> never raises
  when its handler never does.
\<close>

lemma total_return: "total (run_return x)"
  by (simp add: total_def run_return_def)

lemma total_log: "total (logger l s)"
  by (simp add: total_def logger_def)

lemma total_bind: "total m \<Longrightarrow> (\<And>x. total (f x)) \<Longrightarrow> total (run_bind m f)"
  unfolding total_def run_bind_def
  by (auto split: prod.splits sum.splits) (metis fst_conv Inl_Inr_False)+

lemma total_try: "(\<And>e. total (handler e)) \<Longrightarrow> total (try_except m handler)"
  unfolding total_def try_except_def
  by (auto split: prod.splits sum.splits) (metis fst_conv)

lemma total_for_each: "(\<And>x. total (body x)) \<Longrightarrow> total (for_each body xs)"
  by (induction xs) (simp_all add: total_return total_bind)

lemma total_check_port_open: "total (check_port_open w host port t)"
  unfolding check_port_open_def
  by (intro total_try total_bind total_log total_return)

lemma total_fetch_adsb: "total (fetch_adsb w)"
  unfolding fetch_adsb_def
  by (rule total_try) (simp add: total_bind total_log total_return)

lemma total_process_radar: "total (process_radar w r)"
  unfolding process_radar_def
  by (intro total_try total_log)

lemma loop_delay_eq: "loop_delay = 1"
  by (simp add: loop_delay_def POLL_RATE_HZ_def)

lemma total_py_sleep: "0 \<le> d \<Longrightarrow> total (py_sleep d)"
  by (simp add: total_def py_sleep_def)

lemma total_py_time: "total (py_time w)"
  by (simp add: total_def py_time_def)

lemma total_cycle_try: "total (cycle_try w)"
  unfolding cycle_try_def
  by (intro total_try total_bind total_log total_return)

lemma total_cycle: "total (cycle w)"
  unfolding cycle_def
  by (intro total_bind total_py_time total_cycle_try)
     (simp add: total_return total_bind total_py_time total_py_sleep Let_def split: flow.splits)

lemma total_main_loop: "total (main_loop w n)"
  by (induction n) (simp_all add: total_return total_bind total_cycle)

lemma total_unit: "total m \<Longrightarrow> fst (m h) = Inr ()"
  by (metis total_def old.unit.exhaust)

lemma run_bind_total_snd:
  "total m \<Longrightarrow> snd (run_bind m f h) = snd (m h) @ snd (f (projr (fst (m h))) (h @ snd (m h)))"
  unfolding total_def run_bind_def
  by (auto split: prod.splits sum.splits) (metis fst_conv Inl_Inr_False)

lemma main_loop_snoc:
  "snd (main_loop w (Suc n) h) =
     snd (main_loop w n h) @ snd (cycle w (h @ snd (main_loop w n h)))"
proof (induction n arbitrary: h)
  case 0
  show ?case
    by (simp add: run_bind_total_snd total_cycle run_return_def)
next
  case (Suc n)
  have "snd (main_loop w (Suc (Suc n)) h) =
          snd (cycle w h) @ snd (main_loop w (Suc n) (h @ snd (cycle w h)))"
    by (simp add: run_bind_total_snd total_cycle)
  also have "\<dots> = snd (cycle w h) @ snd (main_loop w n (h @ snd (cycle w h)))
       @ snd (cycle w (h @ snd (cycle w h) @ snd (main_loop w n (h @ snd (cycle w h)))))"
    using Suc.IH [of "h @ snd (cycle w h)"] by simp
  finally show ?case
    by (simp add: run_bind_total_snd total_cycle)
qed

text \<open>
  C7. No failure is fatal. In every world, whatever each outside call answers or raises,
  an iteration of the loop ends without an exception, the loop is still running after any
  number of iterations, and iteration \<open>n + 1\<close> takes place after the first \<open>n\<close>.
\<close>

theorem no_failure_is_fatal:
  "fst (cycle w h) = Inr () \<and>
   fst (main_loop w n h) = Inr () \<and>
   snd (main_loop w (Suc n) h) =
     snd (main_loop w n h) @ snd (cycle w (h @ snd (main_loop w n h)))"
  using total_unit [OF total_cycle] total_unit [OF total_main_loop] main_loop_snoc
  by blast

text \<open>
  C10. \<^verbatim>\<open>check_port_open\<close> never raises: for every host, port and timeout it returns a
  boolean, and it returns \<open>True\<close> exactly when no call of the probe raises and
  \<^verbatim>\<open>connect_ex\<close> returns 0; a nonzero \<^verbatim>\<open>connect_ex\<close> and every exception while
  probing give \<open>False\<close>.
\<close>

theorem check_port_open_total:
  "fst (check_port_open w host port timeout h) =
     Inr (socket_socket w h = None \<and>
          sock_settimeout w (h @ [SocketNew]) timeout = None \<and>
          sock_connect_ex w (h @ [SocketNew, SetTimeout timeout]) host port = Inr 0 \<and>
          sock_close w (h @ [SocketNew, SetTimeout timeout, ConnectEx host port]) = None)"
  by (simp add: check_port_open_def try_except_def run_bind_def extern_def
      returns_or_raises_def run_return_def logger_def
      split: option.splits sum.splits prod.splits)

section \<open>The events of a piece of code\<close>

text \<open>
  Every event of a piece of code satisfies a predicate when the events of each of its
  parts do. The fetch issues no geometry request, stores nothing and does not sleep.
\<close>

lemma emits_return: "emits P (run_return x)"
  by (simp add: emits_def run_return_def)

lemma emits_raise: "emits P (run_raise x)"
  by (simp add: emits_def run_raise_def)

lemma emits_lift: "emits P (lift x)"
  by (simp add: emits_def lift_def)

lemma emits_log: "P (Log l s) \<Longrightarrow> emits P (logger l s)"
  by (simp add: emits_def logger_def)

lemma emits_extern: "P ev \<Longrightarrow> emits P (extern ev a)"
  by (simp add: emits_def extern_def)

lemma emits_bind: "emits P m \<Longrightarrow> (\<And>x. emits P (f x)) \<Longrightarrow> emits P (run_bind m f)"
  unfolding emits_def run_bind_def
  by (auto split: prod.splits sum.splits) (metis snd_conv)+

lemma emits_try: "emits P m \<Longrightarrow> (\<And>e. emits P (handler e)) \<Longrightarrow> emits P (try_except m handler)"
  unfolding emits_def try_except_def
  by (auto split: prod.splits sum.splits) (metis snd_conv)+

lemma emits_for_each: "(\<And>x. emits P (body x)) \<Longrightarrow> emits P (for_each body xs)"
  by (induction xs) (simp_all add: emits_return emits_bind)

lemma quiet_events:
  "list_all quiet evs \<Longrightarrow>
     geometry_queries evs = [] \<and> filter is_add evs = [] \<and> sleeps evs = []"
  by (induction evs) (auto simp: quiet_def geometry_queries_def sleeps_def)


lemma emits_check_port_open: "emits quiet (check_port_open w host port t)"
  unfolding check_port_open_def
  by (intro emits_try emits_bind emits_extern emits_log emits_return) (simp_all add: quiet_def)

lemma feed_url_not_geometry:
  "take (length ADSB2DD_URL) (ADSB_JSON_HOST @ ADSB_JSON_PATH) \<noteq> ADSB2DD_URL"
  by (simp add: ADSB2DD_URL_def ADSB_JSON_HOST_def ADSB_JSON_PATH_def)

lemma emits_raise_for_status: "emits P (raise_for_status resp)"
  by (simp add: raise_for_status_def emits_raise emits_return)

lemma emits_resp_json: "emits P (resp_json resp)"
  by (simp add: resp_json_def emits_raise emits_return split: option.splits)

lemma emits_fetch_adsb: "emits quiet (fetch_adsb w)"
  unfolding fetch_adsb_def
  apply (rule emits_try)
   apply (rule emits_bind)
    apply (rule emits_check_port_open)
   apply (auto intro!: emits_bind emits_log emits_return emits_extern emits_raise_for_status
      emits_resp_json simp: quiet_def feed_url_not_geometry simp del: take_append)
  done

lemma fetch_adsb_quiet:
  "geometry_queries (snd (fetch_adsb w h)) = [] \<and> filter is_add (snd (fetch_adsb w h)) = [] \<and>
   sleeps (snd (fetch_adsb w h)) = []"
  using emits_fetch_adsb [of w] by (simp add: emits_def quiet_events)


lemma sleeps_simps:
  "sleeps [] = []"
  "sleeps (ev # evs) = sleep_of ev @ sleeps evs"
  "sleeps (evs @ evs') = sleeps evs @ sleeps evs'"
  by (simp_all add: sleeps_def)

lemma http_gets_simps:
  "http_gets [] = []"
  "http_gets (ev # evs) = get_of ev @ http_gets evs"
  "http_gets (evs @ evs') = http_gets evs @ http_gets evs'"
  by (simp_all add: http_gets_def)

section \<open>A cycle whose fetch fails\<close>

lemma cycle_try_no_snapshot:
  assumes "fst (fetch_adsb w h) = Inr PyNone"
  shows "cycle_try w h =
           (Inr Continue,
            snd (fetch_adsb w h) @
              [Log WARNING ''Skipping this iteration due to failed ADS-B data fetch'',
               Sleep loop_delay])"
  using assms
  by (cases "fetch_adsb w h")
     (simp add: cycle_try_def try_except_def run_bind_def logger_def py_sleep_def run_return_def
       loop_delay_eq)

text \<open>
  C2. In every cycle whose fetch returns \<^verbatim>\<open>None\<close>, the loop issues no geometry request
  and hands no measurement to the store; after the events of the fetch it logs the
  warning, sleeps, and the iteration ends without an exception.
\<close>

theorem feed_failure_aborts_cycle:
  assumes "fst (fetch_adsb w (h @ [TimeRead])) = Inr PyNone"
  shows "cycle w h =
           (Inr (),
            TimeRead # snd (fetch_adsb w (h @ [TimeRead])) @
              [Log WARNING ''Skipping this iteration due to failed ADS-B data fetch'',
               Sleep loop_delay]) \<and>
         geometry_queries (snd (cycle w h)) = [] \<and>
         filter is_add (snd (cycle w h)) = []"
proof -
  have c: "cycle w h =
           (Inr (),
            TimeRead # snd (fetch_adsb w (h @ [TimeRead])) @
              [Log WARNING ''Skipping this iteration due to failed ADS-B data fetch'',
               Sleep loop_delay])"
    by (simp add: cycle_def run_bind_def py_time_def cycle_try_no_snapshot [OF assms]
        run_return_def)
  show ?thesis
    using fetch_adsb_quiet [of w "h @ [TimeRead]"]
    by (simp add: c geometry_queries_def)
qed

text \<open>The cycle of C2 in the world where port 5001 of localhost is closed.\<close>

lemmas run_defs = run_bind_def run_return_def run_raise_def try_except_def extern_def
  returns_or_raises_def lift_def logger_def py_print_def py_time_def py_sleep_def

lemma fetch_localhost_closed:
  "fetch_adsb w_localhost_closed h =
     (Inr PyNone,
      [SocketNew, SetTimeout 1, ConnectEx ''localhost'' 5001, SocketClose,
       Log ERROR ''Port 5001 is not open on localhost. Is the ADS-B server running?''])"
  by (simp add: fetch_adsb_def check_port_open_def run_defs w_localhost_closed_def w_up_def)

theorem feed_failure_aborts_cycle_witness:
  "fst (fetch_adsb w_localhost_closed ([] @ [TimeRead])) = Inr PyNone \<and>
   cycle w_localhost_closed [] =
     (Inr (),
      [TimeRead, SocketNew, SetTimeout 1, ConnectEx ''localhost'' 5001, SocketClose,
       Log ERROR ''Port 5001 is not open on localhost. Is the ADS-B server running?'',
       Log WARNING ''Skipping this iteration due to failed ADS-B data fetch'',
       Sleep 1]) \<and>
   geometry_queries (snd (cycle w_localhost_closed [])) = [] \<and>
   filter is_add (snd (cycle w_localhost_closed [])) = []"
proof -
  have failed: "fst (fetch_adsb w_localhost_closed ([] @ [TimeRead])) = Inr PyNone"
    by (simp add: fetch_localhost_closed)
  from feed_failure_aborts_cycle [OF failed] failed show ?thesis
    by (simp add: fetch_localhost_closed loop_delay_eq geometry_queries_def)
qed

section \<open>The liveness probe\<close>

text \<open>
  C4. The probe goes to port 5001 of \<open>localhost\<close>, not to the host of the configured
  feed (192.168.0.172). Where the feed's host is up and serves a snapshot and nothing
  listens on localhost, \<^verbatim>\<open>fetch_adsb\<close> probes localhost only, reports the port closed
  and returns \<^verbatim>\<open>None\<close> without a request to the feed.
\<close>

theorem probe_targets_localhost:
  "sock_connect_ex w_localhost_closed [SocketNew, SetTimeout 1] ''192.168.0.172'' 5001 = Inr 0 \<and>
   requests_get w_localhost_closed [] (ADSB_JSON_HOST @ ADSB_JSON_PATH) 5 =
     Inr \<lparr>status_code = 200, json_body = Some snapshot\<rparr> \<and>
   fetch_adsb w_localhost_closed [] =
     (Inr PyNone,
      [SocketNew, SetTimeout 1, ConnectEx ''localhost'' 5001, SocketClose,
       Log ERROR ''Port 5001 is not open on localhost. Is the ADS-B server running?''])"
  by (simp add: fetch_localhost_closed) (simp add: w_localhost_closed_def w_up_def)

section \<open>A cycle whose fetch succeeds\<close>

text \<open>
  The events of one radar are its \<^verbatim>\<open>print\<close>, its request, and then only calls of the
  store for that radar and log lines; the events of the \<^verbatim>\<open>for\<close> loop are those of the
  radars one after the other.
\<close>

lemma cycle_try_snapshot:
  assumes "fst (fetch_adsb w h) = Inr v" and "v \<noteq> PyNone"
  shows "cycle_try w h =
           (Inr Fallthrough,
            snd (fetch_adsb w h) @
              snd (for_each (process_radar w) RADARS (h @ snd (fetch_adsb w h))))"
proof -
  have "fst (for_each (process_radar w) RADARS (h @ snd (fetch_adsb w h))) = Inr ()"
    by (rule total_unit [OF total_for_each [OF total_process_radar]])
  with assms show ?thesis
    by (cases "fetch_adsb w h";
        cases "for_each (process_radar w) RADARS (h @ snd (fetch_adsb w h))")
       (simp add: cycle_try_def try_except_def run_bind_def run_return_def)
qed

lemma cycle_snapshot:
  assumes "fst (fetch_adsb w (h @ [TimeRead])) = Inr v" and "v \<noteq> PyNone"
  shows "snd (cycle w h) =
           TimeRead # snd (fetch_adsb w (h @ [TimeRead])) @
             snd (for_each (process_radar w) RADARS
                    (h @ TimeRead # snd (fetch_adsb w (h @ [TimeRead])))) @
             TimeRead #
             (if 0 < loop_delay - (time_time w (h @ TimeRead # snd (cycle_try w (h @ [TimeRead])))
                                    - time_time w h)
              then [Sleep (loop_delay - (time_time w (h @ TimeRead # snd (cycle_try w (h @ [TimeRead])))
                                    - time_time w h))]
              else [])"
  by (simp add: cycle_def run_bind_def py_time_def cycle_try_snapshot [OF assms] Let_def
      py_sleep_def run_return_def)

lemma emits_store_one: "emits (tail_event (rid r)) (store_one w r meas)"
  unfolding store_one_def
  by (intro emits_bind emits_lift emits_extern) simp

lemma store_tail: "list_all (tail_event (rid r)) (snd (for_each (store_one w r) vals h))"
  using emits_for_each [of "tail_event (rid r)" "store_one w r" vals, OF emits_store_one]
  by (simp add: emits_def)

lemma process_radar_events:
  "\<exists>rest. snd (process_radar w r h) =
            Print (build_adsb2dd_url (float_repr w) r)
              # HttpGet (build_adsb2dd_url (float_repr w) r) 5 # rest \<and>
          list_all (tail_event (rid r)) rest"
  using store_tail [of r w]
  by (auto simp: process_radar_def query_adsb2dd_for_def try_except_def run_bind_def
      py_print_def extern_def raise_for_status_def resp_json_def run_raise_def run_return_def
      lift_def logger_def Let_def
      split: prod.splits sum.splits option.splits if_splits)
     (metis snd_conv)+


lemma tail_events:
  "list_all (tail_event i) rest \<Longrightarrow>
     geometry_queries rest = [] \<and> sleeps rest = [] \<and> (j \<noteq> i \<longrightarrow> stored_for j rest = [])"
proof (induction rest)
  case Nil
  show ?case by (simp add: geometry_queries_def sleeps_def stored_for_def)
next
  case (Cons ev rest)
  then show ?case
    by (cases ev) (auto simp: geometry_queries_def sleeps_def stored_for_def)
qed


lemma process_radar_sleeps: "sleeps (snd (process_radar w r h)) = []"
proof -
  obtain rest where
    "snd (process_radar w r h) =
       Print (build_adsb2dd_url (float_repr w) r)
         # HttpGet (build_adsb2dd_url (float_repr w) r) 5 # rest"
    and "list_all (tail_event (rid r)) rest"
    using process_radar_events by blast
  then show ?thesis
    using tail_events [of "rid r" rest] by (simp add: sleeps_def)
qed


lemma radars_step:
  "snd (for_each (process_radar w) (r # rs) h) =
     snd (process_radar w r h) @
       snd (for_each (process_radar w) rs (h @ snd (process_radar w r h)))"
  by (simp add: run_bind_total_snd total_process_radar)


lemma radars_sleeps: "sleeps (snd (for_each (process_radar w) rs h)) = []"
proof (induction rs arbitrary: h)
  case Nil
  show ?case by (simp add: run_return_def sleeps_def)
next
  case (Cons r rs)
  have "sleeps (snd (for_each (process_radar w) (r # rs) h)) =
          sleeps (snd (process_radar w r h)) @
          sleeps (snd (for_each (process_radar w) rs (h @ snd (process_radar w r h))))"
    by (simp only: radars_step sleeps_def map_append concat_append)
  then show ?case
    by (simp add: process_radar_sleeps Cons.IH)
qed











text \<open>
  C1 in two worlds. Where the request of rx2 times out, the three requests are issued,
  rx1 and rx3 each get their one measurement stored, and nothing is stored for rx2. Where
  the geometry service answers each request once only, rx2, asked after rx1, gets its
  measurement stored.
\<close>

lemmas url_defs = build_adsb2dd_url_def position_str_def RADARS_def TX_def FC_MHZ_def
  ADSB2DD_URL_def ADSB_JSON_HOST_def ADSB_JSON_PATH_def repr_table_def str_int_def
  digit_char_def Let_def

lemma urls:
  "build_adsb2dd_url repr_table (RADARS ! 0) =
     ''http://192.168.0.219:49155/api/dd?rx=-34.9192,138.6027,110&tx=-34.981,138.7081,750&fc=204.64&server=http://192.168.0.172:5001''"
  "build_adsb2dd_url repr_table (RADARS ! 1) =
     ''http://192.168.0.219:49155/api/dd?rx=-34.9315,138.6967,408&tx=-34.981,138.7081,750&fc=204.64&server=http://192.168.0.172:5001''"
  "build_adsb2dd_url repr_table (RADARS ! 2) =
     ''http://192.168.0.219:49155/api/dd?rx=-34.8414,138.7237,230&tx=-34.981,138.7081,750&fc=204.64&server=http://192.168.0.172:5001''"
  by (simp_all add: url_defs)

lemma url_rx2:
  "build_adsb2dd_url repr_table (RADARS ! Suc 0) =
     ''http://192.168.0.219:49155/api/dd?rx=-34.9315,138.6967,408&tx=-34.981,138.7081,750&fc=204.64&server=http://192.168.0.172:5001''"
  using urls(2) by simp

lemma for_each_RADARS:
  "for_each body RADARS =
     run_bind (body (RADARS ! 0)) (\<lambda>_.
     run_bind (body (RADARS ! 1)) (\<lambda>_.
     run_bind (body (RADARS ! 2)) (\<lambda>_. run_return ())))"
  by (simp add: RADARS_def)

lemma rids: "rid (RADARS ! 0) = ''rx1''" "rid (RADARS ! 1) = ''rx2''" "rid (RADARS ! 2) = ''rx3''"
  "rid (RADARS ! Suc 0) = ''rx2''"
  by (simp_all add: RADARS_def)

lemmas radar_defs = process_radar_def query_adsb2dd_for_def store_one_def
  raise_for_status_def resp_json_def Let_def

lemma fetch_rx2_down:
  "fetch_adsb w_rx2_down h =
     (Inr snapshot,
      [SocketNew, SetTimeout 1, ConnectEx ''localhost'' 5001, SocketClose,
       Log INFO (''Attempting to fetch ADS-B data from '' @ ADSB_JSON_HOST @ ADSB_JSON_PATH),
       HttpGet (ADSB_JSON_HOST @ ADSB_JSON_PATH) 5,
       Log INFO ''Successfully fetched ADS-B data''])"
  by (simp add: fetch_adsb_def check_port_open_def run_defs w_rx2_down_def w_up_def
      raise_for_status_def resp_json_def urls url_rx2)
     (simp add: ADSB_JSON_HOST_def ADSB_JSON_PATH_def)

lemma rx2_down_repr: "float_repr w_rx2_down = repr_table"
  by (simp add: w_rx2_down_def w_up_def)

lemma rx2_down_get:
  "requests_get w_rx2_down h url t =
     (if url = build_adsb2dd_url repr_table (RADARS ! 1)
      then Inl (Exn RequestsTimeout ''Read timed out.'')
      else if url = ADSB_JSON_HOST @ ADSB_JSON_PATH
      then Inr \<lparr>status_code = 200, json_body = Some snapshot\<rparr>
      else Inr \<lparr>status_code = 200, json_body = Some (PyDict one_measurement)\<rparr>)"
  by (simp add: w_rx2_down_def w_up_def)

lemma rx2_down_time: "time_time w_rx2_down h = real (length h) / 100"
  by (simp add: w_rx2_down_def w_up_def)

lemma rx2_down_store: "store_add_measurement w_rx2_down h i d p = None"
  by (simp add: w_rx2_down_def w_up_def)

lemma process_rx2_down:
  "process_radar w_rx2_down (RADARS ! 0) h =
     (Inr (),
      [Print (build_adsb2dd_url repr_table (RADARS ! 0)),
       HttpGet (build_adsb2dd_url repr_table (RADARS ! 0)) 5,
       AddMeasurement ''rx1'' (PyFloat 12.3) (PyFloat (-4.5))])"
  "process_radar w_rx2_down (RADARS ! 1) h =
     (Inr (),
      [Print (build_adsb2dd_url repr_table (RADARS ! 1)),
       HttpGet (build_adsb2dd_url repr_table (RADARS ! 1)) 5,
       Log ERROR ''Error processing radar rx2: Read timed out.''])"
  "process_radar w_rx2_down (RADARS ! 2) h =
     (Inr (),
      [Print (build_adsb2dd_url repr_table (RADARS ! 2)),
       HttpGet (build_adsb2dd_url repr_table (RADARS ! 2)) 5,
       AddMeasurement ''rx3'' (PyFloat 12.3) (PyFloat (-4.5))])"
  by (simp_all add: radar_defs run_defs rx2_down_repr rx2_down_get rx2_down_store rids
      urls url_rx2 one_measurement_def ADSB_JSON_HOST_def ADSB_JSON_PATH_def)


lemma history_before_RADARS:
  "history_before w RADARS 0 h = h"
  "history_before w RADARS 2 h =
     (h @ snd (process_radar w (RADARS ! 0) h)) @
       snd (process_radar w (RADARS ! 1) (h @ snd (process_radar w (RADARS ! 0) h)))"
  by (simp_all add: RADARS_def numeral_2_eq_2)

















section \<open>Drift correction\<close>

text \<open>
  C3, amended. A cycle whose fetch returns \<^verbatim>\<open>None\<close> sleeps the whole period
  \<open>1 / POLL_RATE_HZ\<close> once, whatever time has passed. Every other cycle reads the clock
  after its work and sleeps for \<open>max 0 (period - elapsed)\<close>, with \<open>elapsed\<close> the
  second reading minus the one taken at the start of the cycle: one sleep of
  \<open>period - elapsed\<close> when that is positive, and no sleep at all otherwise.
\<close>

theorem drift_correction:
  "sleeps (snd (cycle w h)) =
     (if fst (fetch_adsb w (h @ [TimeRead])) = Inr PyNone then [loop_delay]
      else if 0 < loop_delay - (time_time w (h @ TimeRead # snd (cycle_try w (h @ [TimeRead])))
                                  - time_time w h)
      then [loop_delay - (time_time w (h @ TimeRead # snd (cycle_try w (h @ [TimeRead])))
                            - time_time w h)]
      else []) \<and>
   sum_list (sleeps (snd (cycle w h))) =
     (if fst (fetch_adsb w (h @ [TimeRead])) = Inr PyNone then loop_delay
      else max 0 (loop_delay - (time_time w (h @ TimeRead # snd (cycle_try w (h @ [TimeRead])))
                                  - time_time w h))) \<and>
   loop_delay = 1 / POLL_RATE_HZ"
proof (cases "fst (fetch_adsb w (h @ [TimeRead])) = Inr PyNone")
  case True
  have "snd (cycle w h) =
          TimeRead # snd (fetch_adsb w (h @ [TimeRead])) @
            [Log WARNING ''Skipping this iteration due to failed ADS-B data fetch'',
             Sleep loop_delay]"
    by (simp add: cycle_def run_bind_def py_time_def cycle_try_no_snapshot [OF True]
        run_return_def)
  with True show ?thesis
    using fetch_adsb_quiet [of w "h @ [TimeRead]"]
    by (simp add: sleeps_simps loop_delay_def)
next
  case False
  obtain v where v: "fst (fetch_adsb w (h @ [TimeRead])) = Inr v"
    using total_fetch_adsb [of w] by (auto simp: total_def)
  with False have "v \<noteq> PyNone" by simp
  note c = cycle_snapshot [OF v this]
  show ?thesis
    using False fetch_adsb_quiet [of w "h @ [TimeRead]"]
      radars_sleeps [of w RADARS "h @ TimeRead # snd (fetch_adsb w (h @ [TimeRead]))"]
    by (simp add: c sleeps_simps loop_delay_def)
qed

text \<open>
  The two cases of C3: the cycle whose fetch fails sleeps 1 s, and the cycle in which rx2
  is down reads the clock 0.17 s after its start and sleeps 0.83 s.
\<close>

lemma cycle_try_rx2_down:
  "snd (cycle_try w_rx2_down [TimeRead]) =
     [SocketNew, SetTimeout 1, ConnectEx ''localhost'' 5001, SocketClose,
      Log INFO (''Attempting to fetch ADS-B data from '' @ ADSB_JSON_HOST @ ADSB_JSON_PATH),
      HttpGet (ADSB_JSON_HOST @ ADSB_JSON_PATH) 5,
      Log INFO ''Successfully fetched ADS-B data'',
      Print (build_adsb2dd_url repr_table (RADARS ! 0)),
      HttpGet (build_adsb2dd_url repr_table (RADARS ! 0)) 5,
      AddMeasurement ''rx1'' (PyFloat 12.3) (PyFloat (-4.5)),
      Print (build_adsb2dd_url repr_table (RADARS ! 1)),
      HttpGet (build_adsb2dd_url repr_table (RADARS ! 1)) 5,
      Log ERROR ''Error processing radar rx2: Read timed out.'',
      Print (build_adsb2dd_url repr_table (RADARS ! 2)),
      HttpGet (build_adsb2dd_url repr_table (RADARS ! 2)) 5,
      AddMeasurement ''rx3'' (PyFloat 12.3) (PyFloat (-4.5))]"
  by (simp add: cycle_try_def fetch_rx2_down for_each_RADARS
      process_rx2_down [unfolded One_nat_def] run_defs snapshot_def)

theorem drift_correction_witness:
  "sleeps (snd (cycle w_localhost_closed [])) = [1] \<and>
   sleeps (snd (cycle w_rx2_down [])) = [83 / 100] \<and>
   max 0 (loop_delay - (time_time w_rx2_down (TimeRead # snd (cycle_try w_rx2_down [TimeRead]))
                          - time_time w_rx2_down [])) = 83 / 100"
  using drift_correction [of w_localhost_closed "[]"] drift_correction [of w_rx2_down "[]"]
  by (simp add: fetch_localhost_closed fetch_rx2_down snapshot_def cycle_try_rx2_down
      rx2_down_time loop_delay_eq)

text \<open>
  C3 as stated fails on a cycle whose fetch fails: 0.07 s after the start of the cycle
  the loop sleeps 1 s, where \<open>max 0 (period - elapsed)\<close> is 0.93 s.
\<close>

theorem drift_correction_counterexample:
  "snd (cycle w_localhost_closed []) =
     [TimeRead, SocketNew, SetTimeout 1, ConnectEx ''localhost'' 5001, SocketClose,
      Log ERROR ''Port 5001 is not open on localhost. Is the ADS-B server running?'',
      Log WARNING ''Skipping this iteration due to failed ADS-B data fetch''] @ [Sleep 1] \<and>
   time_time w_localhost_closed
     [TimeRead, SocketNew, SetTimeout 1, ConnectEx ''localhost'' 5001, SocketClose,
      Log ERROR ''Port 5001 is not open on localhost. Is the ADS-B server running?'',
      Log WARNING ''Skipping this iteration due to failed ADS-B data fetch'']
     - time_time w_localhost_closed [] = 7 / 100 \<and>
   sum_list (sleeps (snd (cycle w_localhost_closed []))) = 1 \<and>
   sum_list (sleeps (snd (cycle w_localhost_closed []))) \<noteq> max 0 (1 / POLL_RATE_HZ - 7 / 100)"
  by (simp add: cycle_def cycle_try_def fetch_localhost_closed run_defs loop_delay_eq
      sleeps_def POLL_RATE_HZ_def)
     (simp add: w_localhost_closed_def w_up_def)

section \<open>The failures of the feed request\<close>

text \<open>
  What \<^verbatim>\<open>fetch_adsb\<close> does after the probe, by the probe's result and the answer to
  the request.
\<close>

lemma emits_check_port_open_no_get: "emits (\<lambda>ev. get_of ev = []) (check_port_open w host port t)"
  unfolding check_port_open_def
  by (intro emits_try emits_bind emits_extern emits_log emits_return) simp_all

lemma check_port_open_no_get: "http_gets (snd (check_port_open w host port t h)) = []"
proof -
  have "list_all (\<lambda>ev. get_of ev = []) evs \<Longrightarrow> http_gets evs = []" for evs
    by (induction evs) (simp_all add: http_gets_def)
  then show ?thesis
    using emits_check_port_open_no_get [of w host port t] by (simp add: emits_def)
qed

lemma fetch_adsb_closed:
  assumes "check_port_open w ''localhost'' 5001 1 h = (Inr False, pev)"
  shows "fetch_adsb w h =
           (Inr PyNone,
            pev @ [Log ERROR ''Port 5001 is not open on localhost. Is the ADS-B server running?''])"
  by (simp add: fetch_adsb_def try_except_def run_bind_def assms logger_def run_return_def)

lemma fetch_adsb_open:
  assumes "check_port_open w ''localhost'' 5001 1 h = (Inr True, pev)"
  shows "fetch_adsb w h =
     (case requests_get w
             (h @ pev @ [Log INFO (''Attempting to fetch ADS-B data from '' @ ADSB_JSON_HOST
                                     @ ADSB_JSON_PATH)])
             (ADSB_JSON_HOST @ ADSB_JSON_PATH) 5 of
        Inl e \<Rightarrow>
          (Inr PyNone,
           pev @ [Log INFO (''Attempting to fetch ADS-B data from '' @ ADSB_JSON_HOST
                              @ ADSB_JSON_PATH),
                  HttpGet (ADSB_JSON_HOST @ ADSB_JSON_PATH) 5,
                  Log ERROR (if is_Timeout e then failure_message FeedTimeout
                             else if is_ConnectionError e then failure_message FeedConnection
                             else failure_message FeedUnexpected @ exn_str e)])
      | Inr resp \<Rightarrow>
          if 400 \<le> status_code resp \<and> status_code resp < 600
          then (Inr PyNone,
                pev @ [Log INFO (''Attempting to fetch ADS-B data from '' @ ADSB_JSON_HOST
                                   @ ADSB_JSON_PATH),
                       HttpGet (ADSB_JSON_HOST @ ADSB_JSON_PATH) 5,
                       Log ERROR (failure_message FeedUnexpected
                                    @ str_int (status_code resp) @ '' Error'')])
          else (case json_body resp of
                  None \<Rightarrow>
                    (Inr PyNone,
                     pev @ [Log INFO (''Attempting to fetch ADS-B data from '' @ ADSB_JSON_HOST
                                        @ ADSB_JSON_PATH),
                            HttpGet (ADSB_JSON_HOST @ ADSB_JSON_PATH) 5,
                            Log INFO ''Successfully fetched ADS-B data'',
                            Log ERROR (failure_message FeedUnexpected @ ''Expecting value'')])
                | Some v \<Rightarrow>
                    (Inr v,
                     pev @ [Log INFO (''Attempting to fetch ADS-B data from '' @ ADSB_JSON_HOST
                                        @ ADSB_JSON_PATH),
                            HttpGet (ADSB_JSON_HOST @ ADSB_JSON_PATH) 5,
                            Log INFO ''Successfully fetched ADS-B data''])))"
  by (simp add: fetch_adsb_def try_except_def run_bind_def assms logger_def run_return_def
      run_raise_def extern_def raise_for_status_def resp_json_def is_Timeout_def
      is_ConnectionError_def
      split: sum.splits option.splits)

lemma fetch_adsb_one_get: "length (http_gets (snd (fetch_adsb w h))) \<le> 1"
proof -
  obtain b pev where p: "check_port_open w ''localhost'' 5001 1 h = (Inr b, pev)"
    using total_check_port_open [of w "''localhost''" 5001 1]
    by (cases "check_port_open w ''localhost'' 5001 1 h") (auto simp: total_def dest: spec [of _ h])
  have g: "http_gets pev = []"
    using check_port_open_no_get [of w "''localhost''" 5001 1 h] by (simp add: p)
  show ?thesis
  proof (cases b)
    case True
    with p show ?thesis
      by (simp add: fetch_adsb_open g http_gets_simps split: sum.splits option.splits)
  next
    case False
    with p show ?thesis
      by (simp add: fetch_adsb_closed g http_gets_simps)
  qed
qed

text \<open>
  C5, amended. Once the probe has succeeded, \<^verbatim>\<open>fetch_adsb\<close> issues one request with
  a timeout of 5 s and tells three failures apart by its \<^verbatim>\<open>except\<close> clauses: a
  timeout, a connection error, and anything else, which covers a status from 400 to 599
  (what \<^verbatim>\<open>raise_for_status\<close> rejects) and a body that does not parse. Each logs its own
  error line and returns \<^verbatim>\<open>None\<close>. No call of \<^verbatim>\<open>fetch_adsb\<close> issues more than one
  request.
\<close>

theorem feed_failure_taxonomy:
  assumes "fst (check_port_open w ''localhost'' 5001 1 h) = Inr True"
    and "fetch_failure
           (requests_get w
              (h @ snd (check_port_open w ''localhost'' 5001 1 h)
                 @ [Log INFO (''Attempting to fetch ADS-B data from '' @ ADSB_JSON_HOST
                                @ ADSB_JSON_PATH)])
              (ADSB_JSON_HOST @ ADSB_JSON_PATH) 5) = Some k"
  shows "fst (fetch_adsb w h) = Inr PyNone \<and>
         (\<exists>detail. last (snd (fetch_adsb w h)) = Log ERROR (failure_message k @ detail)) \<and>
         http_gets (snd (fetch_adsb w h)) = [(ADSB_JSON_HOST @ ADSB_JSON_PATH, 5)] \<and>
         length (http_gets (snd (fetch_adsb w' h'))) \<le> 1 \<and>
         distinct (map (hd \<circ> failure_message) [FeedTimeout, FeedConnection, FeedUnexpected])"
proof -
  obtain pev where p: "check_port_open w ''localhost'' 5001 1 h = (Inr True, pev)"
    using assms(1) by (cases "check_port_open w ''localhost'' 5001 1 h") simp
  have g: "http_gets pev = []"
    using check_port_open_no_get [of w "''localhost''" 5001 1 h] by (simp add: p)
  from assms(2) fetch_adsb_one_get [of w' h'] show ?thesis
    by (auto simp: fetch_adsb_open [OF p] p fetch_failure_def g http_gets_simps
        split: sum.splits option.splits if_splits)
qed

text \<open>The three failures of C5: a timeout, a refused connection and a 503.\<close>

lemma feed_answers_facts:
  "check_port_open (w_feed_answers outcome) ''localhost'' 5001 1 h =
     (Inr True, [SocketNew, SetTimeout 1, ConnectEx ''localhost'' 5001, SocketClose])"
  "requests_get (w_feed_answers outcome) h url t = outcome"
  by (simp_all add: w_feed_answers_def w_up_def check_port_open_def run_defs)

theorem feed_failure_taxonomy_witness:
  "(fst (fetch_adsb w_feed_timeout []) = Inr PyNone \<and>
    last (snd (fetch_adsb w_feed_timeout [])) =
      Log ERROR ''Timeout while fetching ADS-B data. Server might be overloaded or not responding.'' \<and>
    http_gets (snd (fetch_adsb w_feed_timeout [])) = [(ADSB_JSON_HOST @ ADSB_JSON_PATH, 5)]) \<and>
   (fst (fetch_adsb w_feed_refused []) = Inr PyNone \<and>
    last (snd (fetch_adsb w_feed_refused [])) =
      Log ERROR ''Connection error while fetching ADS-B data. Server might not be running.'' \<and>
    http_gets (snd (fetch_adsb w_feed_refused [])) = [(ADSB_JSON_HOST @ ADSB_JSON_PATH, 5)]) \<and>
   (fst (fetch_adsb w_feed_503 []) = Inr PyNone \<and>
    last (snd (fetch_adsb w_feed_503 [])) =
      Log ERROR ''Unexpected error while fetching ADS-B data: 503 Error'' \<and>
    http_gets (snd (fetch_adsb w_feed_503 [])) = [(ADSB_JSON_HOST @ ADSB_JSON_PATH, 5)])"
proof -
  have t: "fst (fetch_adsb w_feed_timeout []) = Inr PyNone \<and>
    http_gets (snd (fetch_adsb w_feed_timeout [])) = [(ADSB_JSON_HOST @ ADSB_JSON_PATH, 5)]"
    using feed_failure_taxonomy [of w_feed_timeout "[]" FeedTimeout]
    by (simp add: w_feed_timeout_def feed_answers_facts fetch_failure_def is_Timeout_def)
  have r: "fst (fetch_adsb w_feed_refused []) = Inr PyNone \<and>
    http_gets (snd (fetch_adsb w_feed_refused [])) = [(ADSB_JSON_HOST @ ADSB_JSON_PATH, 5)]"
    using feed_failure_taxonomy [of w_feed_refused "[]" FeedConnection]
    by (simp add: w_feed_refused_def feed_answers_facts fetch_failure_def is_Timeout_def
        is_ConnectionError_def)
  have u: "fst (fetch_adsb w_feed_503 []) = Inr PyNone \<and>
    http_gets (snd (fetch_adsb w_feed_503 [])) = [(ADSB_JSON_HOST @ ADSB_JSON_PATH, 5)]"
    using feed_failure_taxonomy [of w_feed_503 "[]" FeedUnexpected]
    by (simp add: w_feed_503_def feed_answers_facts fetch_failure_def)
  have l: "last (snd (fetch_adsb w_feed_timeout [])) =
      Log ERROR ''Timeout while fetching ADS-B data. Server might be overloaded or not responding.''"
    "last (snd (fetch_adsb w_feed_refused [])) =
      Log ERROR ''Connection error while fetching ADS-B data. Server might not be running.''"
    "last (snd (fetch_adsb w_feed_503 [])) =
      Log ERROR ''Unexpected error while fetching ADS-B data: 503 Error''"
    by (simp_all add: w_feed_timeout_def w_feed_refused_def w_feed_503_def
        fetch_adsb_open [OF feed_answers_facts(1)] feed_answers_facts(2) is_Timeout_def
        is_ConnectionError_def str_int_def digit_char_def)
  from t r u l show ?thesis by simp
qed

text \<open>
  C5 as stated fails for a status outside 2xx that \<^verbatim>\<open>raise_for_status\<close> accepts: the
  feed answers 300 with a body that parses, and \<^verbatim>\<open>fetch_adsb\<close> returns that body as
  the snapshot.
\<close>

theorem feed_failure_taxonomy_counterexample:
  "requests_get w_feed_300 [] (ADSB_JSON_HOST @ ADSB_JSON_PATH) 5 =
     Inr \<lparr>status_code = 300, json_body = Some snapshot\<rparr> \<and>
   status_code \<lparr>status_code = 300, json_body = Some snapshot\<rparr> \<notin> {200..299} \<and>
   fst (fetch_adsb w_feed_300 []) = Inr snapshot \<and>
   snapshot \<noteq> PyNone"
  by (simp add: w_feed_300_def fetch_adsb_open [OF feed_answers_facts(1)] feed_answers_facts(2)
      snapshot_def)

end
